theory Spec2Isabelle
  imports Main
begin

section \<open>The JSON writer (JSONWriterImpl)\<close>

subsection \<open>Data\<close>

text \<open>
  \<^verbatim>\<open>XMLSerializedValue = string | XMLSerializedMap | XMLSerializedArray | XMLSerializedObject\<close>.
  A map and a plain object are both iterated entry by entry in insertion order
  (\<^verbatim>\<open>forEachObject\<close>), so both carry the list of their entries.
\<close>

datatype XMLSerializedValue =
    XString string
  | XArray "XMLSerializedValue list"
  | XMap "(string \<times> XMLSerializedValue) list"
  | XObject "(string \<times> XMLSerializedValue) list"

text \<open>\<^verbatim>\<open>Required<JSONWriterOptions>\<close>: every option present.\<close>

record JSONWriterOptions =
  prettyPrint :: bool
  indent :: string
  newline :: string
  offset :: int
  noDoubleEncoding :: bool

text \<open>The defaults that \<^verbatim>\<open>serialize\<close> hands to \<^verbatim>\<open>applyDefaults\<close>.\<close>

definition defaultOptions :: JSONWriterOptions where
  "defaultOptions =
     \<lparr>prettyPrint = False, indent = ''  '', newline = [CHR 0x0A], offset = 0,
      noDoubleEncoding = False\<rparr>"

subsection \<open>Line starts and line ends\<close>

text \<open>
  \<^verbatim>\<open>new Array(n)\<close> is an array of \<open>n\<close> holes, and \<^verbatim>\<open>Array.prototype.join\<close> writes a
  hole as the empty string and puts the separator between consecutive elements.
\<close>

definition new_Array :: "int \<Rightarrow> string list" where
  "new_Array n = replicate (nat n) []"

fun join :: "string list \<Rightarrow> string \<Rightarrow> string" where
  "join [] sep = []"
| "join [x] sep = x"
| "join (x # y # ys) sep = x @ sep @ join (y # ys) sep"

definition beginLine :: "JSONWriterOptions \<Rightarrow> nat \<Rightarrow> string" where
  "beginLine options level =
     (if \<not> prettyPrint options then []
      else (let indentLevel = offset options + int level + 1 in
            if indentLevel > 0 then join (new_Array indentLevel) (indent options)
            else []))"

definition endLine :: "JSONWriterOptions \<Rightarrow> nat \<Rightarrow> string" where
  "endLine options level =
     (if \<not> prettyPrint options then [] else newline options)"

subsection \<open>Counting descendants\<close>

text \<open>
  \<^verbatim>\<open>_descendantCount(obj, count?)\<close>. The optional argument is \<open>None\<close> when the caller
  leaves it out; \<^verbatim>\<open>count = count || 0\<close> turns an absent (or zero) count into 0.
  Each loop is a function over the entries still to visit, carrying \<open>count\<close>; the
  loop body is \<^verbatim>\<open>count += this._descendantCount(val, count)\<close>.
\<close>

definition or_zero :: "nat option \<Rightarrow> nat" where
  "or_zero count = (case count of None \<Rightarrow> 0 | Some c \<Rightarrow> c)"

fun descendantCount :: "XMLSerializedValue \<Rightarrow> nat option \<Rightarrow> nat"
  and descendantCount_forArray :: "XMLSerializedValue list \<Rightarrow> nat \<Rightarrow> nat"
  and descendantCount_forObject :: "(string \<times> XMLSerializedValue) list \<Rightarrow> nat \<Rightarrow> nat"
where
  "descendantCount (XArray vals) count = descendantCount_forArray vals (or_zero count)"
| "descendantCount (XMap entries) count = descendantCount_forObject entries (or_zero count)"
| "descendantCount (XObject entries) count = descendantCount_forObject entries (or_zero count)"
| "descendantCount (XString s) count = or_zero count + 1"
| "descendantCount_forArray [] count = count"
| "descendantCount_forArray (val # rest) count =
     descendantCount_forArray rest (count + descendantCount val (Some count))"
| "descendantCount_forObject [] count = count"
| "descendantCount_forObject ((key, val) # rest) count =
     descendantCount_forObject rest (count + descendantCount val (Some count))"

definition isLeafNode :: "XMLSerializedValue \<Rightarrow> bool" where
  "isLeafNode obj = (descendantCount obj None \<le> 1)"

subsection \<open>Rendering\<close>

definition dquote :: string where
  "dquote = [CHR 0x22]"

text \<open>
  \<^verbatim>\<open>_serializeObject(obj, options, level)\<close>. The two loops carry the index \<open>i\<close> and
  the markup written so far; \<open>len\<close> is the number of entries of the composite
  and \<open>isLeaf\<close> the flag computed once for it.
\<close>

fun serializeObject :: "XMLSerializedValue \<Rightarrow> JSONWriterOptions \<Rightarrow> nat \<Rightarrow> string"
  and serializeObject_forArray ::
    "XMLSerializedValue list \<Rightarrow> JSONWriterOptions \<Rightarrow> nat \<Rightarrow> nat \<Rightarrow> nat \<Rightarrow> string \<Rightarrow> string"
  and serializeObject_forObject ::
    "(string \<times> XMLSerializedValue) list \<Rightarrow> JSONWriterOptions \<Rightarrow> nat \<Rightarrow> bool \<Rightarrow> nat \<Rightarrow> nat
       \<Rightarrow> string \<Rightarrow> string"
where
  "serializeObject (XArray vals) options level =
     (let markup = ''['';
          len = length vals;
          markup = serializeObject_forArray vals options level len 0 markup;
          markup = markup @ endLine options level @ beginLine options level
      in markup @ '']'')"
| "serializeObject (XMap entries) options level =
     (let isLeaf = isLeafNode (XMap entries);
          markup = ''{'';
          len = length entries;
          markup = serializeObject_forObject entries options level isLeaf len 0 markup;
          markup = (if isLeaf \<and> prettyPrint options then markup @ '' ''
                    else markup @ endLine options level @ beginLine options level)
      in markup @ ''}'')"
| "serializeObject (XObject entries) options level =
     (let isLeaf = isLeafNode (XObject entries);
          markup = ''{'';
          len = length entries;
          markup = serializeObject_forObject entries options level isLeaf len 0 markup;
          markup = (if isLeaf \<and> prettyPrint options then markup @ '' ''
                    else markup @ endLine options level @ beginLine options level)
      in markup @ ''}'')"
| "serializeObject (XString s) options level = dquote @ s @ dquote"
| "serializeObject_forArray [] options level len i markup = markup"
| "serializeObject_forArray (val # rest) options level len i markup =
     (let markup = markup @ endLine options (level + 1) @ beginLine options (level + 1)
                     @ serializeObject val options (level + 1);
          markup = (if int i < int len - 1 then markup @ '','' else markup)
      in serializeObject_forArray rest options level len (i + 1) markup)"
| "serializeObject_forObject [] options level isLeaf len i markup = markup"
| "serializeObject_forObject ((key, val) # rest) options level isLeaf len i markup =
     (let markup = (if isLeaf \<and> prettyPrint options then markup @ '' ''
                    else markup @ endLine options (level + 1) @ beginLine options (level + 1));
          markup = markup @ dquote @ key @ dquote @ '':'';
          markup = (if prettyPrint options then markup @ '' '' else markup);
          markup = markup @ serializeObject val options (level + 1);
          markup = (if int i < int len - 1 then markup @ '','' else markup)
      in serializeObject_forObject rest options level isLeaf len (i + 1) markup)"

text \<open>
  \<^verbatim>\<open>serialize\<close> renders the value that the map writer (not part of these sources,
  hence the parameter \<open>mapWriter\<close>) produces for the node, after the line start of
  level 0.
\<close>

definition serialize :: "('node \<Rightarrow> XMLSerializedValue) \<Rightarrow> 'node \<Rightarrow> JSONWriterOptions \<Rightarrow> string" where
  "serialize mapWriter node options =
     beginLine options 0 @ serializeObject (mapWriter node) options 0"

subsection \<open>Exceptions\<close>





section \<open>Tree-order and name utilities (Utility)\<close>

subsection \<open>Nodes\<close>

text \<open>
  A node object as these functions see it: its identity \<open>ref\<close> (what \<^verbatim>\<open>===\<close>
  compares), the reference to its owner document (\<open>None\<close> for \<^verbatim>\<open>null\<close>) and
  the ordered list of its child nodes. The owner document is a back-reference,
  so it is held as a reference and looked up in the table of document nodes.
\<close>

datatype Node = Node (ref: nat) (ownerDocumentRef: "nat option") (childNodes: "Node list")

type_synonym documents = "nat \<Rightarrow> Node"

definition ownerDocument :: "documents \<Rightarrow> Node \<Rightarrow> Node option" where
  "ownerDocument docs node = map_option docs (ownerDocumentRef node)"

subsection \<open>Traversal\<close>

text \<open>
  \<^verbatim>\<open>forEachDescendant(node, func)\<close>. The callback may update variables it has
  captured, so it takes and returns a state \<open>'s\<close>; its result is \<open>Some r\<close> for
  a truthy value \<open>r\<close> and \<open>None\<close> for a falsy one (\<^verbatim>\<open>undefined\<close> included).
  \<open>forEachDescendant_loop\<close> is the \<^verbatim>\<open>for\<close> loop over the child nodes still to
  visit; falling off its end returns \<^verbatim>\<open>undefined\<close>.
\<close>

fun forEachDescendant :: "Node \<Rightarrow> (Node \<Rightarrow> 's \<Rightarrow> 'r option \<times> 's) \<Rightarrow> 's \<Rightarrow> 'r option \<times> 's"
  and forEachDescendant_loop ::
    "Node list \<Rightarrow> (Node \<Rightarrow> 's \<Rightarrow> 'r option \<times> 's) \<Rightarrow> 's \<Rightarrow> 'r option \<times> 's"
where
  "forEachDescendant (Node r d children) func s = forEachDescendant_loop children func s"
| "forEachDescendant_loop [] func s = (None, s)"
| "forEachDescendant_loop (child # rest) func s =
     (case func child s of
        (Some res, s1) \<Rightarrow> (Some res, s1)
      | (None, s1) \<Rightarrow>
          (case forEachDescendant child func s1 of
             (Some res, s2) \<Rightarrow> (Some res, s2)
           | (None, s2) \<Rightarrow> forEachDescendant_loop rest func s2))"

text \<open>\<^verbatim>\<open>isDescendantOf(node, other)\<close> and \<^verbatim>\<open>isAncestorOf(node, other)\<close>.\<close>

fun isDescendantOf :: "Node \<Rightarrow> Node \<Rightarrow> bool"
  and isDescendantOf_loop :: "Node list \<Rightarrow> Node \<Rightarrow> bool"
where
  "isDescendantOf (Node r d children) other = isDescendantOf_loop children other"
| "isDescendantOf_loop [] other = False"
| "isDescendantOf_loop (child # rest) other =
     (if ref child = ref other then True
      else if isDescendantOf child other then True
      else isDescendantOf_loop rest other)"

definition isAncestorOf :: "Node \<Rightarrow> Node \<Rightarrow> bool" where
  "isAncestorOf node other = isDescendantOf other node"

subsection \<open>Tree position\<close>

text \<open>
  \<^verbatim>\<open>treePosition(root, node)\<close>. The callback's captured variables are the pair
  \<open>(pos, found)\<close>; it has no \<^verbatim>\<open>return\<close>, so its result is always falsy.
\<close>

definition treePosition_func :: "Node \<Rightarrow> Node \<Rightarrow> int \<times> bool \<Rightarrow> unit option \<times> (int \<times> bool)" where
  "treePosition_func node childNode s =
     (case s of (pos, found) \<Rightarrow>
        (let pos = pos + 1;
             found = (if \<not> found \<and> ref childNode = ref node then True else found)
         in (None, (pos, found))))"

definition treePosition :: "Node option \<Rightarrow> Node \<Rightarrow> int" where
  "treePosition root node =
     (case root of
        None \<Rightarrow> - 1
      | Some r \<Rightarrow>
          (case forEachDescendant r (treePosition_func node) (0, False) of
             (res, (pos, found)) \<Rightarrow> if found then pos else - 1))"

definition isPreceding :: "documents \<Rightarrow> Node \<Rightarrow> Node \<Rightarrow> bool" where
  "isPreceding docs node other =
     (let nodePos = treePosition (ownerDocument docs node) node;
          otherPos = treePosition (ownerDocument docs other) other
      in if nodePos = - 1 \<or> otherPos = - 1 then False else otherPos < nodePos)"

definition isFollowing :: "documents \<Rightarrow> Node \<Rightarrow> Node \<Rightarrow> bool" where
  "isFollowing docs node other =
     (let nodePos = treePosition (ownerDocument docs node) node;
          otherPos = treePosition (ownerDocument docs other) other
      in if nodePos = - 1 \<or> otherPos = - 1 then False else otherPos > nodePos)"

subsection \<open>Qualified names\<close>

datatype DOMException = InvalidCharacterError | NamespaceError

text \<open>
  \<^verbatim>\<open>DOMImplementation\<close> is not part of these sources. What the functions below
  read from it is a parameter: the two namespace constants, and for each of the
  regular expressions \<^verbatim>\<open>XMLSpec.Name\<close> and \<^verbatim>\<open>XMLSpec.QName\<close> the set of strings
  it matches.
\<close>

record DOMImplementation =
  Namespace_XML :: string
  Namespace_XMLNS :: string
  XMLSpec_Name :: "string \<Rightarrow> bool"
  XMLSpec_QName :: "string \<Rightarrow> bool"

definition validateQName :: "DOMImplementation \<Rightarrow> string \<Rightarrow> DOMException + unit" where
  "validateQName impl qualifiedName =
     (if \<not> XMLSpec_Name impl qualifiedName then Inl InvalidCharacterError
      else if \<not> XMLSpec_QName impl qualifiedName then Inl InvalidCharacterError
      else Inr ())"

text \<open>
  \<^verbatim>\<open>String.prototype.split\<close> with a one-character separator: the pieces between
  consecutive separators, the empty ones included.
\<close>

fun string_split :: "char \<Rightarrow> string \<Rightarrow> string list" where
  "string_split sep [] = [[]]"
| "string_split sep (c # cs) =
     (if c = sep then [] # string_split sep cs
      else (case string_split sep cs of
              [] \<Rightarrow> [[c]]
            | part # parts \<Rightarrow> (c # part) # parts))"

record Names =
  namespace :: "string option"
  prefix :: "string option"
  localName :: string

text \<open>
  \<^verbatim>\<open>extractNames(namespace, qualifiedName)\<close>. A string is falsy exactly when it is
  empty, so \<^verbatim>\<open>!namespace\<close> holds for \<^verbatim>\<open>null\<close> and for \<^verbatim>\<open>''\<close>, and \<^verbatim>\<open>prefix &&\<close>
  asks for a prefix that is neither \<^verbatim>\<open>null\<close> nor empty.
\<close>

definition truthy :: "string option \<Rightarrow> bool" where
  "truthy v = (case v of None \<Rightarrow> False | Some s \<Rightarrow> s \<noteq> [])"

definition extractNames :: "DOMImplementation \<Rightarrow> string option \<Rightarrow> string \<Rightarrow> DOMException + Names" where
  "extractNames impl namespace0 qualifiedName =
     (let namespace = (if \<not> truthy namespace0 then None else namespace0) in
      case validateQName impl qualifiedName of
        Inl e \<Rightarrow> Inl e
      | Inr u \<Rightarrow>
          (let parts = string_split CHR '':'' qualifiedName;
               prefix = (if length parts = 2 then Some (parts ! 0) else None);
               localName = (if length parts = 2 then parts ! 1 else qualifiedName)
           in if truthy prefix \<and> \<not> truthy namespace then Inl NamespaceError
              else if prefix = Some ''xml'' \<and> namespace \<noteq> Some (Namespace_XML impl)
                then Inl NamespaceError
              else if namespace \<noteq> Some (Namespace_XMLNS impl) \<and>
                      (prefix = Some ''xmlns'' \<or> qualifiedName = ''xmlns'')
                then Inl NamespaceError
              else if namespace = Some (Namespace_XMLNS impl) \<and>
                      (prefix \<noteq> Some ''xmlns'' \<and> qualifiedName \<noteq> ''xmlns'')
                then Inl NamespaceError
              else Inr \<lparr>namespace = namespace, prefix = prefix, localName = localName\<rparr>))"

text \<open>
  Modelled from the spec: the regular expressions \<^verbatim>\<open>XMLSpec.Name\<close> and
  \<^verbatim>\<open>XMLSpec.QName\<close> and the namespace constants of \<^verbatim>\<open>DOMImplementation\<close> are
  missing from the sources. The spec asks for the XML \<open>Name\<close> production and for
  the \<open>QName\<close> production, "local or prefixed form with exactly one colon
  separator and non-empty prefix/local parts", and for the fixed XML and XMLNS
  namespace URIs. The productions are given here on ASCII names.
\<close>

definition isNameStartChar :: "char \<Rightarrow> bool" where
  "isNameStartChar c =
     (c \<in> set ''ABCDEFGHIJKLMNOPQRSTUVWXYZ_abcdefghijklmnopqrstuvwxyz:'')"

definition isNameChar :: "char \<Rightarrow> bool" where
  "isNameChar c = (isNameStartChar c \<or> c \<in> set ''-.0123456789'')"

definition matchesName :: "string \<Rightarrow> bool" where
  "matchesName s =
     (case s of [] \<Rightarrow> False | c # cs \<Rightarrow> isNameStartChar c \<and> list_all isNameChar cs)"

definition matchesNCName :: "string \<Rightarrow> bool" where
  "matchesNCName s = (matchesName s \<and> CHR '':'' \<notin> set s)"

definition matchesQName :: "string \<Rightarrow> bool" where
  "matchesQName s =
     (case string_split CHR '':'' s of
        [l] \<Rightarrow> matchesNCName l
      | [p, l] \<Rightarrow> matchesNCName p \<and> matchesNCName l
      | _ \<Rightarrow> False)"

definition domImplementation :: DOMImplementation where
  "domImplementation =
     \<lparr>Namespace_XML = ''http://www.w3.org/XML/1998/namespace'',
      Namespace_XMLNS = ''http://www.w3.org/2000/xmlns/'',
      XMLSpec_Name = matchesName,
      XMLSpec_QName = matchesQName\<rparr>"

section \<open>Reference definitions\<close>

text \<open>
  The functions of this section are not translations of the code. They say in
  the specification's words what the code is compared with.
\<close>

subsection \<open>The JSON text\<close>

text \<open>
  The descendant count as specified: each scalar counts 1, a composite counts
  the sum of the counts of its children.
\<close>

fun scalarCount :: "XMLSerializedValue \<Rightarrow> nat" where
  "scalarCount (XString s) = 1"
| "scalarCount (XArray vals) = sum_list (map scalarCount vals)"
| "scalarCount (XMap entries) = sum_list (map (\<lambda>(key, val). scalarCount val) entries)"
| "scalarCount (XObject entries) = sum_list (map (\<lambda>(key, val). scalarCount val) entries)"

text \<open>The JSON text without any white space: brackets, quoted strings, colons and commas.\<close>

fun compactJSON :: "XMLSerializedValue \<Rightarrow> string" where
  "compactJSON (XString s) = dquote @ s @ dquote"
| "compactJSON (XArray vals) = ''['' @ join (map compactJSON vals) '','' @ '']''"
| "compactJSON (XMap entries) =
     ''{'' @ join (map (\<lambda>(key, val). dquote @ key @ dquote @ '':'' @ compactJSON val) entries) '',''
       @ ''}''"
| "compactJSON (XObject entries) =
     ''{'' @ join (map (\<lambda>(key, val). dquote @ key @ dquote @ '':'' @ compactJSON val) entries) '',''
       @ ''}''"

text \<open>The indent string repeated \<open>offset + level\<close> times, no times when that is negative.\<close>

definition indentation :: "JSONWriterOptions \<Rightarrow> nat \<Rightarrow> string" where
  "indentation options level =
     concat (replicate (nat (offset options + int level)) (indent options))"

text \<open>
  The pretty-printed JSON text. Every element of an array starts a new line, one
  level deeper, and the closing bracket starts a new line at the level of the
  array. A map or object is written the same way unless it is a leaf node, where
  a single space takes the place of each line break; a space follows every colon.
\<close>

fun prettyJSON :: "JSONWriterOptions \<Rightarrow> nat \<Rightarrow> XMLSerializedValue \<Rightarrow> string" where
  "prettyJSON options level (XString s) = dquote @ s @ dquote"
| "prettyJSON options level (XArray vals) =
     ''['' @ join (map (\<lambda>val. newline options @ indentation options (level + 1)
                              @ prettyJSON options (level + 1) val) vals) '',''
       @ newline options @ indentation options level @ '']''"
| "prettyJSON options level (XMap entries) =
     ''{'' @ join (map (\<lambda>(key, val).
                      (if isLeafNode (XMap entries) then '' ''
                       else newline options @ indentation options (level + 1))
                      @ dquote @ key @ dquote @ '': '' @ prettyJSON options (level + 1) val)
                    entries) '',''
       @ (if isLeafNode (XMap entries) then '' ''
          else newline options @ indentation options level) @ ''}''"
| "prettyJSON options level (XObject entries) =
     ''{'' @ join (map (\<lambda>(key, val).
                      (if isLeafNode (XObject entries) then '' ''
                       else newline options @ indentation options (level + 1))
                      @ dquote @ key @ dquote @ '': '' @ prettyJSON options (level + 1) val)
                    entries) '',''
       @ (if isLeafNode (XObject entries) then '' ''
          else newline options @ indentation options level) @ ''}''"



subsection \<open>Tree order\<close>

text \<open>
  The descendants of a node in tree order (preorder): each child, in stored
  order, followed by its own descendants; the node itself is not among them.
\<close>

fun descendants :: "Node \<Rightarrow> Node list" where
  "descendants (Node r d children) = concat (map (\<lambda>child. child # descendants child) children)"

text \<open>
  Visiting a list of nodes in order until the visitor gives a truthy result:
  that result is returned with the state reached, and no later node is visited.
\<close>

fun visitUntil :: "(Node \<Rightarrow> 's \<Rightarrow> 'r option \<times> 's) \<Rightarrow> Node list \<Rightarrow> 's \<Rightarrow> 'r option \<times> 's" where
  "visitUntil visit [] s = (None, s)"
| "visitUntil visit (n # ns) s =
     (case visit n s of
        (Some res, s1) \<Rightarrow> (Some res, s1)
      | (None, s1) \<Rightarrow> visitUntil visit ns s1)"

text \<open>
  The tree position as specified: one more than the number of descendants
  visited strictly before the node in a preorder walk, \<open>-1\<close> when the node is
  not among the descendants (or there is no root).
\<close>

definition preorderPosition :: "Node option \<Rightarrow> Node \<Rightarrow> int" where
  "preorderPosition root node =
     (case root of
        None \<Rightarrow> - 1
      | Some r \<Rightarrow>
          (if ref node \<in> ref ` set (descendants r)
           then 1 + int (length (takeWhile (\<lambda>n. ref n \<noteq> ref node) (descendants r)))
           else - 1))"

subsection \<open>Splitting a qualified name\<close>

text \<open>
  The name split on its single colon: with exactly one colon, the prefix is what
  stands before it and the local name what stands after it; otherwise there is
  no prefix and the local name is the whole name.
\<close>

definition splitOnSingleColon :: "string \<Rightarrow> string option \<times> string" where
  "splitOnSingleColon qualifiedName =
     (if count_list qualifiedName CHR '':'' = 1
      then (Some (takeWhile (\<lambda>c. c \<noteq> CHR '':'') qualifiedName),
            tl (dropWhile (\<lambda>c. c \<noteq> CHR '':'') qualifiedName))
      else (None, qualifiedName))"

section \<open>Example inputs\<close>

definition prettyOptions :: JSONWriterOptions where
  "prettyOptions = defaultOptions\<lparr>prettyPrint := True\<rparr>"


text \<open>
  Two documents: the first holds the elements \<open>nodeA\<close> and \<open>nodeB\<close>, in this
  order, the second holds \<open>nodeC\<close>. \<open>detachedNode\<close> has no owner document.
\<close>

definition nodeA :: Node where
  "nodeA = Node 1 (Some 0) []"

definition nodeB :: Node where
  "nodeB = Node 2 (Some 0) []"

definition nodeC :: Node where
  "nodeC = Node 11 (Some 10) []"

definition documentAB :: Node where
  "documentAB = Node 0 None [nodeA, nodeB]"

definition documentC :: Node where
  "documentC = Node 10 None [nodeC]"

definition twoDocuments :: documents where
  "twoDocuments d = (if d = 0 then documentAB else documentC)"

definition detachedNode :: Node where
  "detachedNode = Node 5 None []"

lemmas example_defs = nodeA_def nodeB_def nodeC_def documentAB_def documentC_def
  twoDocuments_def detachedNode_def

section \<open>The traversal and the tree position\<close>

lemma visitUntil_append:
  "visitUntil visit (xs @ ys) s =
     (case visitUntil visit xs s of
        (Some res, s1) \<Rightarrow> (Some res, s1)
      | (None, s1) \<Rightarrow> visitUntil visit ys s1)"
  by (induction xs arbitrary: s) (auto split: prod.splits option.splits)

lemma forEachDescendant_visitUntil:
  "forEachDescendant node func s = visitUntil func (descendants node) s"
  "forEachDescendant_loop children func s =
     visitUntil func (concat (map (\<lambda>child. child # descendants child) children)) s"
proof (induction node func s and children func s
    rule: forEachDescendant_forEachDescendant_loop.induct)
  case (1 r d children func s)
  then show ?case by simp
next
  case (2 func s)
  show ?case by simp
next
  case (3 child rest func s)
  show ?case
  proof (cases "func child s")
    case (Pair res s1)
    show ?thesis
    proof (cases res)
      case (Some v)
      with Pair show ?thesis by simp
    next
      case None
      note IH1 = "3.IH"(1)[OF Pair[symmetric] None]
      show ?thesis
      proof (cases "forEachDescendant child func s1")
        case (Pair res2 s2)
        show ?thesis
        proof (cases res2)
          case (Some v2)
          with Pair IH1 \<open>func child s = (res, s1)\<close> None show ?thesis
            by (simp add: visitUntil_append)
        next
          case None2: None
          note IH2 = "3.IH"(2)[OF \<open>func child s = (res, s1)\<close>[symmetric] None Pair[symmetric] None2]
          from Pair IH1 IH2 \<open>func child s = (res, s1)\<close> None None2 show ?thesis
            by (simp add: visitUntil_append)
        qed
      qed
    qed
  qed
qed

lemma first_truthy:
  "fst (visitUntil (\<lambda>n s. (visit n, s)) ns s) =
     (case filter (\<lambda>n. visit n \<noteq> None) ns of [] \<Rightarrow> None | n # rest \<Rightarrow> visit n)"
  by (induction ns) (auto split: option.splits)

text \<open>
  Claim C8. \<^verbatim>\<open>forEachDescendant(node, visit)\<close> walks the descendants of \<open>node\<close>,
  without \<open>node\<close> itself, depth first in preorder: each child in stored order,
  then that child's own descendants. It stops at the first descendant for which
  \<open>visit\<close> gives a truthy value and returns that value; when no visit is truthy
  it returns \<^verbatim>\<open>undefined\<close> (\<open>None\<close>). The first equation says so for a visitor
  with captured state: result and final state are those of visiting the preorder
  list up to the first truthy result. The second says it for a visitor without
  state: the result is the visitor's value at the first descendant, in preorder,
  where that value is truthy.
\<close>

theorem forEachDescendant_preorder_walk:
  "forEachDescendant node func s = visitUntil func (descendants node) s \<and>
   fst (forEachDescendant node (\<lambda>n s. (visit n, s)) s0) =
     (case filter (\<lambda>n. visit n \<noteq> None) (descendants node) of
        [] \<Rightarrow> None
      | n # rest \<Rightarrow> visit n)"
  by (simp only: forEachDescendant_visitUntil(1) first_truthy)

lemma visitUntil_treePosition_func:
  "visitUntil (treePosition_func node) ns (pos, found) =
     (None, (pos + int (length ns), found \<or> ref node \<in> ref ` set ns))"
  by (induction ns arbitrary: pos found) (auto simp: treePosition_func_def Let_def)

text \<open>
  What \<^verbatim>\<open>treePosition\<close> computes: the callback never returns a truthy value, so
  the walk visits every descendant and \<open>pos\<close> ends as their number.
\<close>

lemma treePosition_counts_all:
  "treePosition (Some root) node =
     (if ref node \<in> ref ` set (descendants root) then int (length (descendants root)) else - 1)"
  by (simp add: treePosition_def forEachDescendant_visitUntil visitUntil_treePosition_func)

lemma isDescendantOf_descendants:
  "isDescendantOf node other \<longleftrightarrow> ref other \<in> ref ` set (descendants node)"
  "isDescendantOf_loop children other \<longleftrightarrow>
     ref other \<in> ref ` set (concat (map (\<lambda>child. child # descendants child) children))"
  by (induction node other and children other rule: isDescendantOf_isDescendantOf_loop.induct)
     auto

lemma treePosition_absent_iff:
  "treePosition (Some root) node = - 1 \<longleftrightarrow> \<not> isDescendantOf root node"
  by (simp add: treePosition_counts_all isDescendantOf_descendants)

text \<open>
  Claim C1. \<^verbatim>\<open>treePosition(root, node)\<close> is to be one more than the number of
  nodes visited strictly before \<open>node\<close> in a preorder walk of the descendants of
  \<open>root\<close>. In the document with the two children \<open>nodeA\<close>, \<open>nodeB\<close> that number
  is 1 for \<open>nodeA\<close>, and the code returns 2, the number of all descendants.
\<close>

theorem treePosition_first_child_example:
  "preorderPosition (Some documentAB) nodeA = 1 \<and> treePosition (Some documentAB) nodeA = 2"
  by (simp add: example_defs preorderPosition_def treePosition_def treePosition_func_def)

section \<open>Preceding and following\<close>

lemma isPreceding_isFollowing_swap: "isPreceding docs a b = isFollowing docs b a"
  by (auto simp: isPreceding_def isFollowing_def Let_def)

lemma treePosition_null: "treePosition None node = - 1"
  by (simp add: treePosition_def)

text \<open>
  Claim C2. \<^verbatim>\<open>isPreceding(node, other)\<close> is to hold exactly when both nodes have a
  position in the tree of the same owner document and the position of \<open>other\<close>
  is the smaller one, \<^verbatim>\<open>isFollowing\<close> when it is the larger one. \<open>nodeA\<close> and
  \<open>nodeB\<close> belong to the same document, at the preorder positions 1 and 2, and
  the code answers false both to "\<open>nodeA\<close> precedes \<open>nodeB\<close>" and to "\<open>nodeB\<close>
  follows \<open>nodeA\<close>": it compares the two tree positions, which are both 2.
  \<open>nodeA\<close> and \<open>nodeC\<close> belong to different documents, and the code answers
  true to "\<open>nodeC\<close> precedes \<open>nodeA\<close>" and to "\<open>nodeA\<close> follows \<open>nodeC\<close>".
\<close>

theorem isPreceding_isFollowing_examples:
  "ownerDocument twoDocuments nodeA = Some documentAB \<and>
   ownerDocument twoDocuments nodeB = Some documentAB \<and>
   ownerDocument twoDocuments nodeC = Some documentC \<and>
   preorderPosition (Some documentAB) nodeA = 1 \<and>
   preorderPosition (Some documentAB) nodeB = 2 \<and>
   treePosition (Some documentAB) nodeA = 2 \<and>
   treePosition (Some documentAB) nodeB = 2 \<and>
   treePosition (Some documentC) nodeC = 1 \<and>
   isPreceding twoDocuments nodeB nodeA = False \<and>
   isFollowing twoDocuments nodeA nodeB = False \<and>
   isPreceding twoDocuments nodeA nodeC = True \<and>
   isFollowing twoDocuments nodeC nodeA = True"
  by (simp add: example_defs ownerDocument_def preorderPosition_def treePosition_def
      treePosition_func_def isPreceding_def isFollowing_def)

text \<open>
  Claim C7. \<^verbatim>\<open>isPreceding(a, b)\<close> and \<^verbatim>\<open>isFollowing(b, a)\<close> are to be equal for
  nodes of one tree and both false for nodes of different trees. The equality
  holds for all nodes (\<open>isPreceding_isFollowing_swap\<close>). \<open>nodeB\<close> and \<open>nodeC\<close>
  are in the trees of two different documents, neither tree contains the other
  node, and the code answers true to both questions: each position is looked up
  in the node's own document and the two numbers are compared.
\<close>

theorem isPreceding_different_documents_example:
  "ownerDocument twoDocuments nodeB = Some documentAB \<and>
   ownerDocument twoDocuments nodeC = Some documentC \<and>
   isDescendantOf documentAB nodeB \<and> \<not> isDescendantOf documentAB nodeC \<and>
   isDescendantOf documentC nodeC \<and> \<not> isDescendantOf documentC nodeB \<and>
   isPreceding twoDocuments nodeB nodeC = True \<and>
   isFollowing twoDocuments nodeC nodeB = True"
  by (simp add: example_defs ownerDocument_def treePosition_def
      treePosition_func_def isPreceding_def isFollowing_def)

text \<open>
  Claim C10. \<^verbatim>\<open>treePosition\<close> with a \<^verbatim>\<open>null\<close> root returns \<open>-1\<close>, and so
  \<^verbatim>\<open>isPreceding\<close> and \<^verbatim>\<open>isFollowing\<close> return false whenever the owner document
  of either node is \<^verbatim>\<open>null\<close>. All three are total functions of the model: no
  branch of the code raises.
\<close>

theorem null_ownerDocument_gives_false:
  "treePosition None node = - 1 \<and>
   (ownerDocument docs node = None \<or> ownerDocument docs other = None \<longrightarrow>
      isPreceding docs node other = False \<and> isFollowing docs node other = False)"
  by (auto simp: isPreceding_def isFollowing_def Let_def treePosition_null)

theorem null_ownerDocument_gives_false_witness:
  "ownerDocument twoDocuments detachedNode = None \<and>
   treePosition None nodeA = - 1 \<and>
   isPreceding twoDocuments detachedNode nodeA = False \<and>
   isFollowing twoDocuments detachedNode nodeA = False \<and>
   isPreceding twoDocuments nodeA detachedNode = False \<and>
   isFollowing twoDocuments nodeA detachedNode = False"
  using null_ownerDocument_gives_false [of nodeA twoDocuments detachedNode]
    null_ownerDocument_gives_false [of detachedNode twoDocuments nodeA]
  by (simp add: ownerDocument_def detachedNode_def)

section \<open>The JSON text\<close>

subsection \<open>The descendant count\<close>

text \<open>
  Claim C3. The descendant count is to be 1 for a scalar and the sum of the
  counts of the children for a composite, and a value is to be a leaf node
  exactly when the count is at most 1. The loop body adds to \<open>count\<close> the result
  of a call that has already started from \<open>count\<close>, so what was counted before is
  counted again: the array of two scalars has the count 3, not 2, and the map of
  one scalar and one empty map has the count 2, not 1, and is not a leaf node.
\<close>

theorem descendantCount_counts_twice_example:
  "scalarCount (XArray [XString ''a'', XString ''b'']) = 2 \<and>
   descendantCount (XArray [XString ''a'', XString ''b'']) None = 3 \<and>
   scalarCount (XMap [(''a'', XString ''1''), (''b'', XMap [])]) = 1 \<and>
   descendantCount (XMap [(''a'', XString ''1''), (''b'', XMap [])]) None = 2 \<and>
   isLeafNode (XMap [(''a'', XString ''1''), (''b'', XMap [])]) = False"
  by (simp add: or_zero_def isLeafNode_def)

subsection \<open>Line starts\<close>

lemma join_replicate_empty: "join (replicate n []) sep = concat (replicate (n - 1) sep)"
proof (induction n)
  case 0
  show ?case by simp
next
  case (Suc m)
  then show ?case by (cases m) simp_all
qed

lemma beginLine_indentation:
  assumes "prettyPrint options"
  shows "beginLine options level = indentation options level"
proof (cases "offset options + int level + 1 > 0")
  case True
  then have "nat (offset options + int level + 1) - 1 = nat (offset options + int level)"
    by arith
  with True assms show ?thesis
    by (simp add: beginLine_def new_Array_def join_replicate_empty indentation_def)
next
  case False
  then have "nat (offset options + int level) = 0" by arith
  with False assms show ?thesis by (simp add: beginLine_def indentation_def)
qed

lemma beginLine_plain: "\<not> prettyPrint options \<Longrightarrow> beginLine options level = []"
  by (simp add: beginLine_def)

lemma endLine_plain: "\<not> prettyPrint options \<Longrightarrow> endLine options level = []"
  by (simp add: endLine_def)

lemma endLine_pretty: "prettyPrint options \<Longrightarrow> endLine options level = newline options"
  by (simp add: endLine_def)

lemma join_Cons: "join (x # xs) sep = (if xs = [] then x else x @ sep @ join xs sep)"
  by (cases xs) simp_all

subsection \<open>Rendering without pretty-printing\<close>

lemma serializeObject_plain:
  "\<not> prettyPrint options \<Longrightarrow> serializeObject obj options level = compactJSON obj"
  "\<not> prettyPrint options \<Longrightarrow> len = i + length vals \<Longrightarrow>
     serializeObject_forArray vals options level len i markup =
       markup @ join (map compactJSON vals) '',''"
  "\<not> prettyPrint options \<Longrightarrow> len = i + length entries \<Longrightarrow>
     serializeObject_forObject entries options level isLeaf len i markup =
       markup @ join (map (\<lambda>(key, val). dquote @ key @ dquote @ '':'' @ compactJSON val) entries) '',''"
proof (induction obj options level and vals options level len i markup
    and entries options level isLeaf len i markup
    rule: serializeObject_serializeObject_forArray_serializeObject_forObject.induct)
  case (1 vals options level)
  then show ?case by (simp add: beginLine_plain endLine_plain)
next
  case (2 entries options level)
  then show ?case by (simp add: beginLine_plain endLine_plain)
next
  case (3 entries options level)
  then show ?case by (simp add: beginLine_plain endLine_plain)
next
  case (4 s options level)
  show ?case by simp
next
  case (5 options level len i markup)
  show ?case by simp
next
  case (6 val rest options level len i markup)
  from "6.prems" have np: "\<not> prettyPrint options" and len: "len = i + Suc (length rest)"
    by simp_all
  define m1 where "m1 = markup @ endLine options (level + 1) @ beginLine options (level + 1)
                     @ serializeObject val options (level + 1)"
  define m2 where "m2 = (if int i < int len - 1 then m1 @ '','' else m1)"
  have v: "m1 = markup @ compactJSON val"
    using "6.IH"(1) np by (simp add: m1_def beginLine_plain endLine_plain)
  have c: "int i < int len - 1 \<longleftrightarrow> rest \<noteq> []"
    using len by auto
  have "serializeObject_forArray rest options level len (i + 1) m2 =
          m2 @ join (map compactJSON rest) '',''"
    using "6.IH"(2)[OF m1_def m2_def np] len by simp
  moreover have "serializeObject_forArray (val # rest) options level len i markup =
          serializeObject_forArray rest options level len (i + 1) m2"
    by (simp add: m1_def m2_def Let_def)
  ultimately have "serializeObject_forArray (val # rest) options level len i markup =
          m2 @ join (map compactJSON rest) '',''"
    by (simp only:)
  also have "\<dots> = markup @ join (map compactJSON (val # rest)) '',''"
    by (simp add: m2_def c v join_Cons)
  finally show ?case .
next
  case (7 options level isLeaf len i markup)
  show ?case by simp
next
  case (8 key val rest options level isLeaf len i markup)
  from "8.prems" have np: "\<not> prettyPrint options" and len: "len = i + Suc (length rest)"
    by simp_all
  define m1 where "m1 = (if isLeaf \<and> prettyPrint options then markup @ '' ''
                    else markup @ endLine options (level + 1) @ beginLine options (level + 1))"
  define m2 where "m2 = m1 @ dquote @ key @ dquote @ '':''"
  define m3 where "m3 = (if prettyPrint options then m2 @ '' '' else m2)"
  define m4 where "m4 = m3 @ serializeObject val options (level + 1)"
  define m5 where "m5 = (if int i < int len - 1 then m4 @ '','' else m4)"
  let ?piece = "\<lambda>(key, val). dquote @ key @ dquote @ '':'' @ compactJSON val"
  have v: "m4 = markup @ ?piece (key, val)"
    using "8.IH"(1)[OF m1_def m2_def m3_def] np
    by (simp add: m1_def m2_def m3_def m4_def beginLine_plain endLine_plain)
  have c: "int i < int len - 1 \<longleftrightarrow> rest \<noteq> []"
    using len by auto
  have "serializeObject_forObject rest options level isLeaf len (i + 1) m5 =
          m5 @ join (map ?piece rest) '',''"
    using "8.IH"(2)[OF m1_def m2_def m3_def m4_def m5_def np] len by simp
  moreover have "serializeObject_forObject ((key, val) # rest) options level isLeaf len i markup =
          serializeObject_forObject rest options level isLeaf len (i + 1) m5"
    by (simp add: m1_def m2_def m3_def m4_def m5_def Let_def)
  ultimately have "serializeObject_forObject ((key, val) # rest) options level isLeaf len i markup =
          m5 @ join (map ?piece rest) '',''"
    by (simp only:)
  also have "\<dots> = markup @ join (map ?piece ((key, val) # rest)) '',''"
    by (simp add: m5_def c v join_Cons)
  finally show ?case .
qed

subsection \<open>Rendering with pretty-printing\<close>

lemma serializeObject_pretty:
  "prettyPrint options \<Longrightarrow> serializeObject obj options level = prettyJSON options level obj"
  "prettyPrint options \<Longrightarrow> len = i + length vals \<Longrightarrow>
     serializeObject_forArray vals options level len i markup =
       markup @ join (map (\<lambda>val. newline options @ indentation options (level + 1)
                              @ prettyJSON options (level + 1) val) vals) '',''"
  "prettyPrint options \<Longrightarrow> len = i + length entries \<Longrightarrow>
     serializeObject_forObject entries options level isLeaf len i markup =
       markup @ join (map (\<lambda>(key, val).
                      (if isLeaf then '' '' else newline options @ indentation options (level + 1))
                      @ dquote @ key @ dquote @ '': '' @ prettyJSON options (level + 1) val)
                    entries) '',''"
proof (induction obj options level and vals options level len i markup
    and entries options level isLeaf len i markup
    rule: serializeObject_serializeObject_forArray_serializeObject_forObject.induct)
  case (1 vals options level)
  then show ?case by (simp add: beginLine_indentation endLine_pretty)
next
  case (2 entries options level)
  then show ?case by (simp add: beginLine_indentation endLine_pretty)
next
  case (3 entries options level)
  then show ?case by (simp add: beginLine_indentation endLine_pretty)
next
  case (4 s options level)
  show ?case by simp
next
  case (5 options level len i markup)
  show ?case by simp
next
  case (6 val rest options level len i markup)
  from "6.prems" have pp: "prettyPrint options" and len: "len = i + Suc (length rest)"
    by simp_all
  define m1 where "m1 = markup @ endLine options (level + 1) @ beginLine options (level + 1)
                     @ serializeObject val options (level + 1)"
  define m2 where "m2 = (if int i < int len - 1 then m1 @ '','' else m1)"
  let ?piece = "\<lambda>val. newline options @ indentation options (level + 1)
                  @ prettyJSON options (level + 1) val"
  have v: "m1 = markup @ ?piece val"
    using "6.IH"(1) pp by (simp add: m1_def beginLine_indentation endLine_pretty)
  have c: "int i < int len - 1 \<longleftrightarrow> rest \<noteq> []"
    using len by auto
  have "serializeObject_forArray rest options level len (i + 1) m2 =
          m2 @ join (map ?piece rest) '',''"
    using "6.IH"(2)[OF m1_def m2_def pp] len by simp
  moreover have "serializeObject_forArray (val # rest) options level len i markup =
          serializeObject_forArray rest options level len (i + 1) m2"
    by (simp add: m1_def m2_def Let_def)
  ultimately have "serializeObject_forArray (val # rest) options level len i markup =
          m2 @ join (map ?piece rest) '',''"
    by (simp only:)
  also have "\<dots> = markup @ join (map ?piece (val # rest)) '',''"
    by (simp add: m2_def c v join_Cons)
  finally show ?case .
next
  case (7 options level isLeaf len i markup)
  show ?case by simp
next
  case (8 key val rest options level isLeaf len i markup)
  from "8.prems" have pp: "prettyPrint options" and len: "len = i + Suc (length rest)"
    by simp_all
  define m1 where "m1 = (if isLeaf \<and> prettyPrint options then markup @ '' ''
                    else markup @ endLine options (level + 1) @ beginLine options (level + 1))"
  define m2 where "m2 = m1 @ dquote @ key @ dquote @ '':''"
  define m3 where "m3 = (if prettyPrint options then m2 @ '' '' else m2)"
  define m4 where "m4 = m3 @ serializeObject val options (level + 1)"
  define m5 where "m5 = (if int i < int len - 1 then m4 @ '','' else m4)"
  let ?piece = "\<lambda>(key, val).
                  (if isLeaf then '' '' else newline options @ indentation options (level + 1))
                  @ dquote @ key @ dquote @ '': '' @ prettyJSON options (level + 1) val"
  have v: "m4 = markup @ ?piece (key, val)"
    using "8.IH"(1)[OF m1_def m2_def m3_def] pp
    by (simp add: m1_def m2_def m3_def m4_def beginLine_indentation endLine_pretty)
  have c: "int i < int len - 1 \<longleftrightarrow> rest \<noteq> []"
    using len by auto
  have "serializeObject_forObject rest options level isLeaf len (i + 1) m5 =
          m5 @ join (map ?piece rest) '',''"
    using "8.IH"(2)[OF m1_def m2_def m3_def m4_def m5_def pp] len by simp
  moreover have "serializeObject_forObject ((key, val) # rest) options level isLeaf len i markup =
          serializeObject_forObject rest options level isLeaf len (i + 1) m5"
    by (simp add: m1_def m2_def m3_def m4_def m5_def Let_def)
  ultimately have "serializeObject_forObject ((key, val) # rest) options level isLeaf len i markup =
          m5 @ join (map ?piece rest) '',''"
    by (simp only:)
  also have "\<dots> = markup @ join (map ?piece ((key, val) # rest)) '',''"
    by (simp add: m5_def c v join_Cons)
  finally show ?case .
qed

text \<open>
  Claim C6, as stated: in pretty-print mode each line starts with the indent
  string repeated \<open>offset + level + 1\<close> times. With the default indent of two
  spaces and offset 0, the line start of level 0 is empty, not one indent:
  \<^verbatim>\<open>new Array(n).join(s)\<close> repeats \<open>s\<close> between \<open>n\<close> holes, that is \<open>n - 1\<close> times.
\<close>

theorem beginLine_indent_counterexample:
  "prettyPrint prettyOptions \<and>
   beginLine prettyOptions 0 \<noteq>
     concat (replicate (nat (offset prettyOptions + int 0 + 1)) (indent prettyOptions))"
  by (simp add: prettyOptions_def defaultOptions_def beginLine_def new_Array_def)

text \<open>
  Claim C6, amended. In pretty-print mode a line of nesting \<open>level\<close> starts with
  the indent string repeated \<open>offset + level\<close> times (no times when that number
  is negative) and ends with the newline string, and the text rendered is
  \<open>prettyJSON\<close>: every entry on a line of its own, one level deeper than the
  brackets around it, except inside a leaf node. Without pretty-printing line
  starts and line ends are empty and the text rendered is \<open>compactJSON\<close>, which
  adds no white space to keys and scalars.
\<close>

theorem pretty_print_lines:
  "(prettyPrint options \<longrightarrow>
      beginLine options level = indentation options level \<and>
      endLine options level = newline options \<and>
      serializeObject obj options level = prettyJSON options level obj) \<and>
   (\<not> prettyPrint options \<longrightarrow>
      beginLine options level = [] \<and>
      endLine options level = [] \<and>
      serializeObject obj options level = compactJSON obj)"
  by (simp add: beginLine_indentation endLine_pretty serializeObject_pretty(1)
      beginLine_plain endLine_plain serializeObject_plain(1))

theorem pretty_print_lines_witness:
  \<open>prettyPrint prettyOptions \<and> \<not> prettyPrint defaultOptions \<and>
   beginLine prettyOptions 2 = ''    '' \<and>
   endLine prettyOptions 2 = [CHR 0x0A] \<and>
   serializeObject (XArray [XString ''x'', XString ''y'']) prettyOptions 0 =
     ''['' @ [CHR 0x0A] @ ''  "x",'' @ [CHR 0x0A] @ ''  "y"'' @ [CHR 0x0A] @ '']'' \<and>
   beginLine defaultOptions 2 = [] \<and>
   endLine defaultOptions 2 = [] \<and>
   serializeObject (XMap [(''a'', XArray [XString ''x'', XString ''y''])]) defaultOptions 0 =
     ''{"a":["x","y"]}''\<close>
proof -
  let ?xs = "XArray [XString ''x'', XString ''y'']"
  let ?m = "XMap [(''a'', ?xs)]"
  have pp: "prettyPrint prettyOptions" and np: "\<not> prettyPrint defaultOptions"
    by (simp_all add: prettyOptions_def defaultOptions_def)
  from pretty_print_lines [of prettyOptions 2 ?xs] pp
  have b: "beginLine prettyOptions 2 = indentation prettyOptions 2"
    and e: "endLine prettyOptions 2 = newline prettyOptions"
    by blast+
  from pretty_print_lines [of prettyOptions 0 ?xs] pp
  have r: "serializeObject ?xs prettyOptions 0 = prettyJSON prettyOptions 0 ?xs"
    by blast
  from pretty_print_lines [of defaultOptions 2 ?m] np
  have b': "beginLine defaultOptions 2 = []" and e': "endLine defaultOptions 2 = []"
    by blast+
  from pretty_print_lines [of defaultOptions 0 ?m] np
  have r': "serializeObject ?m defaultOptions 0 = compactJSON ?m"
    by blast
  have "indentation prettyOptions 2 = ''    ''"
    by (simp add: indentation_def prettyOptions_def defaultOptions_def numeral_2_eq_2)
  moreover have "newline prettyOptions = [CHR 0x0A]"
    by (simp add: prettyOptions_def defaultOptions_def)
  moreover have \<open>prettyJSON prettyOptions 0 ?xs =
      ''['' @ [CHR 0x0A] @ ''  "x",'' @ [CHR 0x0A] @ ''  "y"'' @ [CHR 0x0A] @ '']''\<close>
    by (simp add: indentation_def prettyOptions_def defaultOptions_def dquote_def)
  moreover have \<open>compactJSON ?m = ''{"a":["x","y"]}''\<close>
    by (simp add: dquote_def)
  ultimately show ?thesis
    using pp np b e r b' e' r' by (simp only: simp_thms)
qed

subsection \<open>Leaf nodes\<close>

text \<open>
  Claim C4, as stated: with pretty-printing, the map \<^verbatim>\<open>{"a":"1"}\<close> is rendered as
  \<^verbatim>\<open>{ "a":"1" }\<close>. The code writes a space after the colon as well.
\<close>

theorem serializeObject_single_entry_counterexample:
  \<open>prettyPrint prettyOptions \<and>
   serializeObject (XMap [(''a'', XString ''1'')]) prettyOptions 0 \<noteq> ''{ "a":"1" }''\<close>
  by (simp add: prettyOptions_def defaultOptions_def isLeafNode_def or_zero_def dquote_def)

text \<open>
  Claim C4, amended. With pretty-printing, a map (or object) with a single
  scalar entry is rendered on one line, its parts separated by single spaces
  only: an opening brace, a space, the quoted key, a colon, a space, the quoted
  scalar, a space, the closing brace; for \<^verbatim>\<open>{"a":"1"}\<close> that is \<^verbatim>\<open>{ "a": "1" }\<close>.
\<close>

theorem serializeObject_single_entry_pretty:
  assumes "prettyPrint options"
  shows "serializeObject (XMap [(key, XString s)]) options level =
           ''{ '' @ dquote @ key @ dquote @ '': '' @ dquote @ s @ dquote @ '' }'' \<and>
         serializeObject (XObject [(key, XString s)]) options level =
           ''{ '' @ dquote @ key @ dquote @ '': '' @ dquote @ s @ dquote @ '' }''"
  using assms by (simp add: isLeafNode_def or_zero_def)

theorem serializeObject_single_entry_pretty_witness:
  \<open>prettyPrint prettyOptions \<and>
   serializeObject (XMap [(''a'', XString ''1'')]) prettyOptions 0 = ''{ "a": "1" }''\<close>
  using serializeObject_single_entry_pretty [of prettyOptions "''a''" "''1''" 0]
  by (simp add: prettyOptions_def defaultOptions_def dquote_def)

subsection \<open>Scalars and exceptions\<close>














section \<open>Namespace rules of qualified names\<close>

lemma string_split_not_Nil: "string_split sep s \<noteq> []"
  by (induction s) (auto split: list.splits)

lemma length_string_split: "length (string_split sep s) = Suc (count_list s sep)"
  by (induction s) (auto split: list.splits simp: string_split_not_Nil)

lemma string_split_no_sep: "sep \<notin> set s \<Longrightarrow> string_split sep s = [s]"
  by (induction s) auto

lemma string_split_first:
  "sep \<notin> set p \<Longrightarrow> string_split sep (p @ sep # l) = p # string_split sep l"
  by (induction p) auto

lemma count_list_zero: "count_list xs x = 0 \<longleftrightarrow> x \<notin> set xs"
  by (induction xs) auto

lemma string_split_single:
  assumes "count_list s sep = 1"
  shows "string_split sep s = [takeWhile (\<lambda>c. c \<noteq> sep) s, tl (dropWhile (\<lambda>c. c \<noteq> sep) s)]"
proof -
  define p where "p = takeWhile (\<lambda>c. c \<noteq> sep) s"
  define d where "d = dropWhile (\<lambda>c. c \<noteq> sep) s"
  have s: "s = p @ d" by (simp add: p_def d_def)
  have np: "sep \<notin> set p" by (auto simp: p_def dest: set_takeWhileD)
  then have cp: "count_list p sep = 0" by (simp add: count_list_zero)
  have "sep \<in> set s" using assms count_list_zero[of s sep] by auto
  then have "d \<noteq> []" using np s by auto
  then obtain l where d: "d = sep # l"
    using hd_dropWhile[of "\<lambda>c. c \<noteq> sep" s] by (cases d) (auto simp: d_def)
  have "count_list s sep = count_list p sep + count_list d sep"
    unfolding s by (induction p) auto
  with assms cp d have "count_list l sep = 0" by simp
  then have nl: "sep \<notin> set l" by (simp add: count_list_zero)
  have "string_split sep s = p # string_split sep l"
    unfolding s d using np by (rule string_split_first)
  with nl show ?thesis by (simp add: string_split_no_sep d p_def[symmetric] d_def[symmetric])
qed

lemma extractNames_parts:
  "(if length (string_split CHR '':'' q) = 2 then Some (string_split CHR '':'' q ! 0) else None,
    if length (string_split CHR '':'' q) = 2 then string_split CHR '':'' q ! 1 else q)
   = splitOnSingleColon q"
  by (simp add: splitOnSingleColon_def length_string_split string_split_single)

lemma if_chain4:
  "(if a then e else if b then e else if c then e else if d then e else r) =
     (if a \<or> b \<or> c \<or> d then e else r)"
  by simp

text \<open>
  Claim C5. For a qualified name that passes \<^verbatim>\<open>validateQName\<close> (a name that does
  not is refused before with \<open>InvalidCharacterError\<close>) and whose prefix, if it
  has one, is not empty, \<^verbatim>\<open>extractNames\<close> raises \<open>NamespaceError\<close> when a prefix
  comes with a null namespace, when the prefix \<open>xml\<close> comes with a namespace
  other than the XML namespace, when the prefix \<open>xmlns\<close> or the name \<open>xmlns\<close>
  comes with a namespace other than the XMLNS namespace, or when the XMLNS
  namespace comes with a name that is neither \<open>xmlns\<close> nor prefixed with
  \<open>xmlns\<close>; otherwise it returns the namespace, the prefix and the local name,
  the name being split on its single colon. The empty namespace counts as null,
  as the first statement of the function has it. The four names of the claim
  are the theorem's witness.
\<close>

theorem extractNames_namespace_rules:
  assumes valid: "validateQName impl qualifiedName = Inr ()"
      and parts: "splitOnSingleColon qualifiedName = (pfx, loc)"
      and nonempty: "pfx \<noteq> Some []"
  shows "extractNames impl ns qualifiedName =
     (let namespace = (if ns = Some [] then None else ns) in
      if (pfx \<noteq> None \<and> namespace = None)
         \<or> (pfx = Some ''xml'' \<and> namespace \<noteq> Some (Namespace_XML impl))
         \<or> (namespace \<noteq> Some (Namespace_XMLNS impl)
              \<and> (pfx = Some ''xmlns'' \<or> qualifiedName = ''xmlns''))
         \<or> (namespace = Some (Namespace_XMLNS impl)
              \<and> (pfx \<noteq> Some ''xmlns'' \<and> qualifiedName \<noteq> ''xmlns''))
      then Inl NamespaceError
      else Inr \<lparr>namespace = namespace, prefix = pfx, localName = loc\<rparr>)"
proof -
  define N where "N = (if ns = Some [] then None else ns)"
  from extractNames_parts[of qualifiedName] parts
  have p1: "(if length (string_split CHR '':'' qualifiedName) = 2
             then Some (string_split CHR '':'' qualifiedName ! 0) else None) = pfx"
   and p2: "(if length (string_split CHR '':'' qualifiedName) = 2
             then string_split CHR '':'' qualifiedName ! 1 else qualifiedName) = loc"
    by simp_all
  have t: "truthy pfx = (pfx \<noteq> None)"
    using nonempty by (cases pfx) (simp_all add: truthy_def)
  have n: "(if \<not> truthy ns then None else ns) = N"
    unfolding N_def by (cases ns) (simp_all add: truthy_def)
  have tn: "(\<not> truthy N) = (N = None)"
    unfolding N_def by (cases ns) (simp_all add: truthy_def)
  have "extractNames impl ns qualifiedName =
     (if pfx \<noteq> None \<and> N = None then Inl NamespaceError
      else if pfx = Some ''xml'' \<and> N \<noteq> Some (Namespace_XML impl) then Inl NamespaceError
      else if N \<noteq> Some (Namespace_XMLNS impl) \<and> (pfx = Some ''xmlns'' \<or> qualifiedName = ''xmlns'')
        then Inl NamespaceError
      else if N = Some (Namespace_XMLNS impl) \<and> (pfx \<noteq> Some ''xmlns'' \<and> qualifiedName \<noteq> ''xmlns'')
        then Inl NamespaceError
      else Inr \<lparr>namespace = N, prefix = pfx, localName = loc\<rparr>)"
    unfolding extractNames_def Let_def valid p1 p2 n t tn by (simp only: sum.case)
  then show ?thesis
    unfolding Let_def N_def[symmetric] by (simp only: if_chain4)
qed

lemmas validation_defs = validateQName_def domImplementation_def matchesName_def
  matchesQName_def matchesNCName_def isNameStartChar_def isNameChar_def

theorem extractNames_namespace_rules_witness:
  "validateQName domImplementation ''xmlns'' = Inr () \<and>
   validateQName domImplementation ''p:local'' = Inr () \<and>
   validateQName domImplementation ''xml:lang'' = Inr () \<and>
   splitOnSingleColon ''xmlns'' = (None, ''xmlns'') \<and>
   splitOnSingleColon ''p:local'' = (Some ''p'', ''local'') \<and>
   splitOnSingleColon ''xml:lang'' = (Some ''xml'', ''lang'') \<and>
   extractNames domImplementation None ''xmlns'' = Inl NamespaceError \<and>
   extractNames domImplementation None ''p:local'' = Inl NamespaceError \<and>
   extractNames domImplementation (Some (Namespace_XMLNS domImplementation)) ''xmlns'' =
     Inr \<lparr>namespace = Some ''http://www.w3.org/2000/xmlns/'', prefix = None,
          localName = ''xmlns''\<rparr> \<and>
   extractNames domImplementation (Some (Namespace_XML domImplementation)) ''xml:lang'' =
     Inr \<lparr>namespace = Some ''http://www.w3.org/XML/1998/namespace'', prefix = Some ''xml'',
          localName = ''lang''\<rparr>"
proof -
  have v1: "validateQName domImplementation ''xmlns'' = Inr ()"
    and v2: "validateQName domImplementation ''p:local'' = Inr ()"
    and v3: "validateQName domImplementation ''xml:lang'' = Inr ()"
    by (simp_all add: validation_defs)
  have s1: "splitOnSingleColon ''xmlns'' = (None, ''xmlns'')"
    and s2: "splitOnSingleColon ''p:local'' = (Some ''p'', ''local'')"
    and s3: "splitOnSingleColon ''xml:lang'' = (Some ''xml'', ''lang'')"
    by (simp_all add: splitOnSingleColon_def)
  have e1: "extractNames domImplementation None ''xmlns'' = Inl NamespaceError"
    using extractNames_namespace_rules [OF v1 s1, of None] by simp
  have e2: "extractNames domImplementation None ''p:local'' = Inl NamespaceError"
    using extractNames_namespace_rules [OF v2 s2, of None] by simp
  have e3: "extractNames domImplementation (Some (Namespace_XMLNS domImplementation)) ''xmlns'' =
     Inr \<lparr>namespace = Some ''http://www.w3.org/2000/xmlns/'', prefix = None,
          localName = ''xmlns''\<rparr>"
    using extractNames_namespace_rules [OF v1 s1, of "Some (Namespace_XMLNS domImplementation)"]
    by (simp add: domImplementation_def)
  have e4: "extractNames domImplementation (Some (Namespace_XML domImplementation)) ''xml:lang'' =
     Inr \<lparr>namespace = Some ''http://www.w3.org/XML/1998/namespace'', prefix = Some ''xml'',
          localName = ''lang''\<rparr>"
    using extractNames_namespace_rules [OF v3 s3, of "Some (Namespace_XML domImplementation)"]
    by (simp add: domImplementation_def)
  from v1 v2 v3 s1 s2 s3 e1 e2 e3 e4 show ?thesis by (simp only: simp_thms)
qed

end
